theory Spec2Isabelle
  imports Main "HOL-Library.Sublist"
begin

section \<open>JavaScript values\<close>

text \<open>
  Values as they come out of a JSON response body or out of \<^verbatim>\<open>JSON.parse\<close>.
  Numbers are integers.
  An object is its list of own properties.
\<close>

datatype jsval =
    JUndefined
  | JNull
  | JBool bool
  | JNum int
  | JStr string
  | JArr "jsval list"
  | JObj "(string \<times> jsval) list"

datatype js_error = TypeError

text \<open>Truthiness (\<^verbatim>\<open>!x\<close>, \<^verbatim>\<open>x && y\<close>, \<^verbatim>\<open>x ? a : b\<close>).\<close>

fun truthy :: "jsval \<Rightarrow> bool" where
  "truthy JUndefined = False"
| "truthy JNull = False"
| "truthy (JBool b) = b"
| "truthy (JNum n) = (n \<noteq> 0)"
| "truthy (JStr s) = (s \<noteq> [])"
| "truthy (JArr xs) = True"
| "truthy (JObj kvs) = True"

text \<open>\<^verbatim>\<open>Array.isArray(x)\<close>.\<close>

fun isArray :: "jsval \<Rightarrow> bool" where
  "isArray (JArr xs) = True"
| "isArray v = False"

text \<open>
  \<^verbatim>\<open>x?.k\<close>: \<^verbatim>\<open>undefined\<close> on \<^verbatim>\<open>null\<close> and \<^verbatim>\<open>undefined\<close>, the property otherwise.
  The property names read in this program (\<^verbatim>\<open>data\<close>, \<^verbatim>\<open>properties\<close>, \<^verbatim>\<open>success\<close>,
  \<^verbatim>\<open>isEnvAgent\<close>) are on no prototype, so primitives and arrays give \<^verbatim>\<open>undefined\<close>.
\<close>

fun opt_member :: "jsval \<Rightarrow> string \<Rightarrow> jsval" where
  "opt_member (JObj kvs) k = (case map_of kvs k of None \<Rightarrow> JUndefined | Some v \<Rightarrow> v)"
| "opt_member v k = JUndefined"

text \<open>\<^verbatim>\<open>x.k\<close>: a TypeError on \<^verbatim>\<open>null\<close> and \<^verbatim>\<open>undefined\<close>.\<close>

fun member :: "jsval \<Rightarrow> string \<Rightarrow> js_error + jsval" where
  "member JUndefined k = Inl TypeError"
| "member JNull k = Inl TypeError"
| "member v k = Inr (opt_member v k)"

text \<open>Sequencing of steps that may throw.\<close>

fun and_then :: "js_error + 'a \<Rightarrow> ('a \<Rightarrow> js_error + 'b) \<Rightarrow> js_error + 'b" where
  "and_then (Inl e) f = Inl e"
| "and_then (Inr v) f = f v"

section \<open>AllProperty: unwrapping the listing payload\<close>

text \<open>
  \<^verbatim>\<open>extractList\<close> of AllProperty, branch by branch. Each \<^verbatim>\<open>return\<close> re-reads the
  position with plain property accesses, as the source does.
\<close>

definition extractList :: "jsval \<Rightarrow> js_error + jsval" where
  "extractList resData =
    (if \<not> truthy resData then Inr (JArr [])
     else if isArray resData then Inr resData
     else and_then (member resData ''data'') (\<lambda>d.
       if isArray d then member resData ''data''
       else and_then (member resData ''properties'') (\<lambda>p.
         if isArray p then member resData ''properties''
         else if isArray (opt_member (opt_member resData ''success'') ''data'')
           then and_then (member resData ''success'') (\<lambda>s. member s ''data'')
         else if isArray (opt_member (opt_member resData ''data'') ''data'')
           then and_then (member resData ''data'') (\<lambda>d2. member d2 ''data'')
         else Inr (JArr []))))"

text \<open>
  The accepted shapes as the specification lists them: the payload itself, then the
  positions \<^verbatim>\<open>.data\<close>, \<^verbatim>\<open>.properties\<close>, \<^verbatim>\<open>.success.data\<close>, \<^verbatim>\<open>.data.data\<close>.
\<close>

fun at_path :: "jsval \<Rightarrow> string list \<Rightarrow> jsval" where
  "at_path v [] = v"
| "at_path v (k # ks) = at_path (opt_member v k) ks"

definition accepted_positions :: "jsval \<Rightarrow> jsval list" where
  "accepted_positions resData =
    map (at_path resData)
      [[], [''data''], [''properties''], [''success'', ''data''], [''data'', ''data'']]"

definition first_array :: "jsval list \<Rightarrow> jsval" where
  "first_array vs = (case find isArray vs of None \<Rightarrow> JArr [] | Some a \<Rightarrow> a)"

section \<open>App: the route guard\<close>

type_synonym storage = "string \<rightharpoonup> string"

text \<open>\<^verbatim>\<open>!token\<close> on what \<^verbatim>\<open>localStorage.getItem\<close> returns: \<^verbatim>\<open>null\<close> or a string.\<close>

fun truthy_item :: "string option \<Rightarrow> bool" where
  "truthy_item None = False"
| "truthy_item (Some s) = (s \<noteq> [])"

text \<open>
  \<^verbatim>\<open>getStoredAdminInfo\<close>. \<^verbatim>\<open>JSON.parse\<close> is the platform's and is a parameter:
  \<open>None\<close> where it throws, which the \<^verbatim>\<open>catch\<close> turns into \<^verbatim>\<open>null\<close>.
\<close>

definition getStoredAdminInfo :: "(string \<Rightarrow> jsval option) \<Rightarrow> storage \<Rightarrow> jsval" where
  "getStoredAdminInfo JSON_parse ls =
    (case ls ''adminInfo'' of
       None \<Rightarrow> JNull
     | Some stored \<Rightarrow>
         if stored = [] then JNull
         else (case JSON_parse stored of None \<Rightarrow> JNull | Some v \<Rightarrow> v))"

datatype element = Navigate string | Children

text \<open>
  \<^verbatim>\<open>ProtectedRoute\<close>. The prop \<^verbatim>\<open>allowEnvAgent\<close> defaults to \<^verbatim>\<open>true\<close> when it is
  not passed (\<open>None\<close>).
\<close>

definition ProtectedRoute :: "(string \<Rightarrow> jsval option) \<Rightarrow> storage \<Rightarrow> bool option \<Rightarrow> element" where
  "ProtectedRoute JSON_parse ls allowEnvAgent_prop =
    (let allowEnvAgent = (case allowEnvAgent_prop of None \<Rightarrow> True | Some b \<Rightarrow> b);
         token = ls ''adminToken''
     in if \<not> truthy_item token then Navigate ''/admin/login''
        else let adminInfo = getStoredAdminInfo JSON_parse ls
             in if truthy (opt_member adminInfo ''isEnvAgent'') \<and> \<not> allowEnvAgent
                then Navigate ''/add-property''
                else Children)"

text \<open>
  The route table of \<^verbatim>\<open>App\<close>: the login page is rendered as it is, every other page
  inside \<^verbatim>\<open>ProtectedRoute\<close> with the \<^verbatim>\<open>allowEnvAgent\<close> of its route.
\<close>

datatype route = Unguarded | Guarded "bool option"

definition routes :: "(string \<times> route) list" where
  "routes =
    [(''/admin/login'', Unguarded),
     (''/dashboard'', Guarded (Some False)),
     (''/add-property'', Guarded (Some True)),
     (''/lead-monitoring'', Guarded (Some True)),
     (''/add-category'', Guarded (Some False)),
     (''/add-subcategory'', Guarded (Some False)),
     (''/all-owners'', Guarded (Some False)),
     (''/owners-projects'', Guarded (Some False)),
     (''/all-clients'', Guarded (Some False)),
     (''/all-properties'', Guarded (Some False)),
     (''/all-category'', Guarded (Some False)),
     (''/contact-inquiries'', Guarded (Some False))]"

fun route_element :: "(string \<Rightarrow> jsval option) \<Rightarrow> storage \<Rightarrow> route \<Rightarrow> element" where
  "route_element JSON_parse ls Unguarded = Children"
| "route_element JSON_parse ls (Guarded allowEnvAgent_prop) =
     ProtectedRoute JSON_parse ls allowEnvAgent_prop"

text \<open>The decision table of the specification (section 4.2), in its words.\<close>

record RoutePolicy =
  requiresSession :: bool
  allowRestrictedAgent :: bool

record Profile =
  isRestrictedAgent :: bool

record Session =
  session_token :: "string option"
  profile :: "Profile option"

datatype decision = Render | RedirectToLogin | RedirectToRestrictedHome

definition restricted :: "Session \<Rightarrow> bool" where
  "restricted s = (case profile s of None \<Rightarrow> False | Some p \<Rightarrow> isRestrictedAgent p)"

definition decide_spec :: "RoutePolicy \<Rightarrow> Session \<Rightarrow> decision" where
  "decide_spec policy s =
    (if session_token s = None \<and> requiresSession policy then RedirectToLogin
     else if session_token s \<noteq> None \<and> requiresSession policy \<and> restricted s
             \<and> \<not> allowRestrictedAgent policy
       then RedirectToRestrictedHome
     else Render)"

text \<open>What the guard reads of the persisted session, and where each decision leads.\<close>

definition current_session :: "(string \<Rightarrow> jsval option) \<Rightarrow> storage \<Rightarrow> Session" where
  "current_session JSON_parse ls =
    \<lparr> session_token = (if truthy_item (ls ''adminToken'') then ls ''adminToken'' else None),
      profile = (case getStoredAdminInfo JSON_parse ls of
                   JObj kvs \<Rightarrow> Some \<lparr> isRestrictedAgent = truthy (opt_member (JObj kvs) ''isEnvAgent'') \<rparr>
                 | _ \<Rightarrow> None) \<rparr>"

fun element_of :: "decision \<Rightarrow> element" where
  "element_of Render = Children"
| "element_of RedirectToLogin = Navigate ''/admin/login''"
| "element_of RedirectToRestrictedHome = Navigate ''/add-property''"

section \<open>Strings\<close>

text \<open>
  \<^verbatim>\<open>String(x)\<close> for the cells of the export and the ids in request paths. An array is its
  elements joined by commas, with \<^verbatim>\<open>null\<close> and \<^verbatim>\<open>undefined\<close> elements empty; a plain
  object is \<^verbatim>\<open>[object Object]\<close>.
\<close>

fun join :: "string \<Rightarrow> string list \<Rightarrow> string" where
  "join sep [] = []"
| "join sep [x] = x"
| "join sep (x # y # ys) = x @ sep @ join sep (y # ys)"

fun digits :: "nat \<Rightarrow> string" where
  "digits n = (if n < 10 then [char_of (48 + n)] else digits (n div 10) @ [char_of (48 + n mod 10)])"

primrec js_String :: "jsval \<Rightarrow> string" where
  "js_String JUndefined = ''undefined''"
| "js_String JNull = ''null''"
| "js_String (JBool b) = (if b then ''true'' else ''false'')"
| "js_String (JNum n) = (if n < 0 then ''-'' @ digits (nat (- n)) else digits (nat n))"
| "js_String (JStr s) = s"
| "js_String (JArr xs) =
     join '','' (map2 (\<lambda>x t. if x = JUndefined \<or> x = JNull then [] else t) xs (map js_String xs))"
| "js_String (JObj kvs) = ''[object Object]''"

text \<open>\<^verbatim>\<open>String(token)\<close> for what \<^verbatim>\<open>localStorage.getItem\<close> returned.\<close>

fun item_String :: "string option \<Rightarrow> string" where
  "item_String None = ''null''"
| "item_String (Some t) = t"

text \<open>
  The platform's \<^verbatim>\<open>String.prototype.toLowerCase\<close> and its conversion of a number to a
  string are parameters of what follows. A string of the program is held as its UTF-8
  bytes: joining strings and finding one inside another are the same on either form, and
  lowercasing is left to the platform.
\<close>

record platform =
  toLowerCase :: "string \<Rightarrow> string"
  Number_toString :: "int \<Rightarrow> string"

text \<open>The results of a run of steps, or the first throw among them.\<close>

fun collect :: "(js_error + 'a) list \<Rightarrow> js_error + 'a list" where
  "collect [] = Inr []"
| "collect (r # rs) = and_then r (\<lambda>x. and_then (collect rs) (\<lambda>xs. Inr (x # xs)))"

text \<open>
  The conversion inside a template literal \<^verbatim>\<open>`${x}`\<close>. A number goes through the platform.
  An array is its elements joined by commas, \<^verbatim>\<open>null\<close> and \<^verbatim>\<open>undefined\<close> elements empty, the
  others converted in turn. An object out of a response body is \<^verbatim>\<open>[object Object]\<close>, unless it
  has a property \<^verbatim>\<open>toString\<close> of its own: that property is not a function, the inherited
  \<^verbatim>\<open>valueOf\<close> gives no primitive, and the conversion throws.
\<close>

primrec ToString :: "platform \<Rightarrow> jsval \<Rightarrow> js_error + string" where
  "ToString P JUndefined = Inr ''undefined''"
| "ToString P JNull = Inr ''null''"
| "ToString P (JBool b) = Inr (if b then ''true'' else ''false'')"
| "ToString P (JNum n) = Inr (Number_toString P n)"
| "ToString P (JStr s) = Inr s"
| "ToString P (JArr xs) =
     and_then
       (collect (map2 (\<lambda>x t. if x = JUndefined \<or> x = JNull then Inr [] else t) xs
                      (map (ToString P) xs)))
       (\<lambda>ts. Inr (join '','' ts))"
| "ToString P (JObj kvs) =
     (if map_of kvs ''toString'' = None then Inr ''[object Object]'' else Inl TypeError)"

text \<open>\<^verbatim>\<open>text.includes(q)\<close>: \<open>q\<close> occurs in \<open>text\<close> as a contiguous run.\<close>

fun includes_str :: "string \<Rightarrow> string \<Rightarrow> bool" where
  "includes_str [] q = (q = [])"
| "includes_str (c # cs) q = (prefix q (c # cs) \<or> includes_str cs q)"


section \<open>Records of the account pages\<close>

text \<open>
  The fields both account pages copy from the service's record. They hold whatever the
  response body holds. Identifiers are primitive values, on which \<^verbatim>\<open>===\<close> is equality.
\<close>

record account =
  id' :: jsval
  name :: jsval
  email :: jsval
  phone :: jsval
  alternatePhone :: jsval
  address :: jsval
  role :: jsval
  joinedAt :: jsval
  gender :: jsval
  dateOfBirth :: jsval
  bio :: jsval
  preferences :: jsval
  profileImage :: jsval

text \<open>AllClients keeps a status label, BuilderVerification the service's flag.\<close>

record user = account +
  status :: jsval

record owner = account +
  isBlocked :: jsval

text \<open>
  \<^verbatim>\<open>formatDate\<close>. The platform's \<^verbatim>\<open>new Date(d).toLocaleDateString(...)\<close> is a parameter,
  \<open>None\<close> where it throws.
\<close>

definition formatDate :: "(jsval \<Rightarrow> string option) \<Rightarrow> jsval \<Rightarrow> string" where
  "formatDate toLocaleDateString dateString =
    (if \<not> truthy dateString then ''N/A''
     else (case toLocaleDateString dateString of None \<Rightarrow> ''Invalid Date'' | Some d \<Rightarrow> d))"

text \<open>
  The mapping inside \<^verbatim>\<open>data.users.map\<close>. Reading \<^verbatim>\<open>u.id\<close> throws on a \<^verbatim>\<open>null\<close> element;
  once it has succeeded the other reads cannot throw.
\<close>

definition AllClients_mapUser :: "(jsval \<Rightarrow> string option) \<Rightarrow> jsval \<Rightarrow> js_error + user" where
  "AllClients_mapUser D u =
    and_then (member u ''id'') (\<lambda>i. Inr
      \<lparr> id' = i,
        name = opt_member u ''name'',
        email = opt_member u ''email'',
        phone = opt_member u ''phone'',
        alternatePhone = opt_member u ''alternatePhone'',
        address = opt_member u ''address'',
        role = opt_member u ''role'',
        joinedAt = JStr (formatDate D (opt_member u ''createdAt'')),
        gender = opt_member u ''gender'',
        dateOfBirth = opt_member u ''dateOfBirth'',
        bio = opt_member u ''bio'',
        preferences = opt_member u ''preferences'',
        profileImage = opt_member u ''profileImage'',
        status = (if truthy (opt_member u ''isBlocked'') then JStr ''Blocked'' else JStr ''Active'') \<rparr>)"

definition BuilderVerification_mapUser :: "(jsval \<Rightarrow> string option) \<Rightarrow> jsval \<Rightarrow> js_error + owner" where
  "BuilderVerification_mapUser D u =
    and_then (member u ''id'') (\<lambda>i. Inr
      \<lparr> id' = i,
        name = opt_member u ''name'',
        email = opt_member u ''email'',
        phone = opt_member u ''phone'',
        alternatePhone = opt_member u ''alternatePhone'',
        address = opt_member u ''address'',
        role = opt_member u ''role'',
        joinedAt = JStr (formatDate D (opt_member u ''createdAt'')),
        gender = opt_member u ''gender'',
        dateOfBirth = opt_member u ''dateOfBirth'',
        bio = opt_member u ''bio'',
        preferences = opt_member u ''preferences'',
        profileImage = opt_member u ''profileImage'',
        isBlocked = opt_member u ''isBlocked'' \<rparr>)"

text \<open>\<^verbatim>\<open>xs.map(f)\<close> where \<open>f\<close> may throw: the first throw ends the loop.\<close>

fun map_throw :: "('a \<Rightarrow> js_error + 'b) \<Rightarrow> 'a list \<Rightarrow> js_error + 'b list" where
  "map_throw f [] = Inr []"
| "map_throw f (x # xs) = and_then (f x) (\<lambda>y. and_then (map_throw f xs) (\<lambda>ys. Inr (y # ys)))"

text \<open>\<^verbatim>\<open>data.users.map(f)\<close>: a TypeError when \<^verbatim>\<open>data.users\<close> is not an array.\<close>

definition users_map :: "(jsval \<Rightarrow> js_error + 'b) \<Rightarrow> jsval \<Rightarrow> js_error + 'b list" where
  "users_map f data =
    and_then (member data ''users'')
      (\<lambda>us. case us of JArr xs \<Rightarrow> map_throw f xs | _ \<Rightarrow> Inl TypeError)"

section \<open>Pages: state, requests and settled responses\<close>

text \<open>
  What a page can touch outside its own state: the browser's storage, the requests it has
  issued (paths are relative to \<^verbatim>\<open>API_URL\<close>), the notifications it has raised (by kind; their
  rendering is not part of this development), the files it has offered for download and the
  address the window was sent to.
\<close>

datatype toast = ToastError | ToastSuccess | ToastInfo

record request =
  http_method :: string
  url :: string
  authorization :: "string option"

record env =
  localStorage :: storage
  requests :: "request list"
  toasts :: "toast list"
  downloads :: "(string \<times> string) list"
  href :: string

text \<open>
  An \<^verbatim>\<open>async\<close> handler is two functions: \<open>_begin\<close> runs up to the \<^verbatim>\<open>await\<close> and returns
  what the continuation has captured (\<open>None\<close> when the handler returned without a request),
  \<open>_settle\<close> runs the continuation on the settled promise. A rejected promise carries
  \<^verbatim>\<open>error.response\<close> when the service answered.
\<close>

record http_response =
  response_status :: nat
  response_data :: jsval

datatype settled = Fulfilled jsval | Rejected "http_response option"

definition bearer :: "string option \<Rightarrow> string option" where
  "bearer token = Some (''Bearer '' @ item_String token)"

definition send :: "request \<Rightarrow> 'a env_scheme \<Rightarrow> 'a env_scheme" where
  "send r s = s\<lparr> requests := requests s @ [r] \<rparr>"

definition notify :: "toast \<Rightarrow> 'a env_scheme \<Rightarrow> 'a env_scheme" where
  "notify t s = s\<lparr> toasts := toasts s @ [t] \<rparr>"

definition removeItem :: "string \<Rightarrow> 'a env_scheme \<Rightarrow> 'a env_scheme" where
  "removeItem k s = s\<lparr> localStorage := (localStorage s)(k := None) \<rparr>"

text \<open>\<^verbatim>\<open>error.response?.status === 401\<close>.\<close>

fun status_401 :: "http_response option \<Rightarrow> bool" where
  "status_401 None = False"
| "status_401 (Some r) = (response_status r = 401)"

record page = env +
  loading :: bool

text \<open>
  The state shared by the two account pages. \<open>token\<close> is the constant of the component
  body: AllClients memoises it at mount, BuilderVerification reads it at each render.
\<close>

record 'u listing = page +
  users :: "'u list"
  statusFilter :: string
  token :: "string option"

section \<open>Header: logout\<close>

definition handleLogout :: "'a env_scheme \<Rightarrow> 'a env_scheme" where
  "handleLogout s =
    (removeItem ''adminRole'' (removeItem ''adminInfo'' (removeItem ''adminName''
       (removeItem ''adminToken'' s))))\<lparr> href := ''/admin/login'' \<rparr>"

section \<open>AllClients\<close>

text \<open>
  The state of the component, and \<open>filtered\<close>: the memo as the last render computed it,
  which is what the handlers of that render read.
\<close>

record clients = "user listing" +
  search :: string
  selectedUser :: "user option"
  drawerOpen :: bool
  activeTab :: string
  filtered :: "user list"

definition fetchUsers_begin :: "clients \<Rightarrow> clients \<times> bool" where
  "fetchUsers_begin s =
    (if \<not> truthy_item (token s)
     then (notify ToastError (s\<lparr> loading := False \<rparr>), False)
     else (send \<lparr> http_method = ''GET'', url = ''/api/users/list?role=user'',
                   authorization = bearer (token s) \<rparr> (s\<lparr> loading := True \<rparr>), True))"

definition fetchUsers_catch :: "http_response option \<Rightarrow> clients \<Rightarrow> clients" where
  "fetchUsers_catch response s =
    (let s1 = s\<lparr> loading := False \<rparr> in
     if status_401 response
     then removeItem ''adminToken'' (notify ToastError s1)
     else notify ToastError s1)"

text \<open>A throw inside the \<^verbatim>\<open>try\<close> reaches the same \<^verbatim>\<open>catch\<close>, with no \<^verbatim>\<open>response\<close>.\<close>

definition fetchUsers_settle :: "(jsval \<Rightarrow> string option) \<Rightarrow> settled \<Rightarrow> clients \<Rightarrow> clients" where
  "fetchUsers_settle D r s =
    (case r of
       Fulfilled data \<Rightarrow>
         (case users_map (AllClients_mapUser D) data of
            Inr us \<Rightarrow> s\<lparr> users := us, loading := False \<rparr>
          | Inl e \<Rightarrow> fetchUsers_catch None s)
     | Rejected response \<Rightarrow> fetchUsers_catch response s)"

text \<open>
  \<^verbatim>\<open>toggleBlock\<close> of AllClients. The continuation keeps the \<^verbatim>\<open>userId\<close> argument and the
  \<^verbatim>\<open>selectedUser\<close> of the render in which the handler was created; the state updaters
  \<^verbatim>\<open>prevUsers => ...\<close> and \<^verbatim>\<open>prev => ...\<close> receive the state of the moment they run.
\<close>

record toggle_closure =
  c_userId :: jsval
  c_selectedUser :: "user option"

definition AllClients_toggleBlock_begin :: "jsval \<Rightarrow> clients \<Rightarrow> clients \<times> toggle_closure option" where
  "AllClients_toggleBlock_begin userId s =
    (if \<not> truthy userId then (notify ToastError s, None)
     else if \<not> truthy_item (token s) then (notify ToastError s, None)
     else (send \<lparr> http_method = ''PUT'', url = ''/api/users/block/'' @ js_String userId,
                   authorization = bearer (token s) \<rparr> s,
           Some \<lparr> c_userId = userId, c_selectedUser = selectedUser s \<rparr>))"

text \<open>\<^verbatim>\<open>{ ...prev, status: newStatus }\<close>; spreading \<^verbatim>\<open>null\<close> gives no fields.\<close>

definition blank_user :: user where
  "blank_user =
    \<lparr> id' = JUndefined, name = JUndefined, email = JUndefined, phone = JUndefined,
      alternatePhone = JUndefined, address = JUndefined, role = JUndefined,
      joinedAt = JUndefined, gender = JUndefined, dateOfBirth = JUndefined, bio = JUndefined,
      preferences = JUndefined, profileImage = JUndefined, status = JUndefined \<rparr>"

definition spread_status :: "user option \<Rightarrow> jsval \<Rightarrow> user" where
  "spread_status prev newStatus =
    (case prev of None \<Rightarrow> blank_user\<lparr> status := newStatus \<rparr>
                | Some u \<Rightarrow> u\<lparr> status := newStatus \<rparr>)"

definition selected_is :: "user option \<Rightarrow> jsval \<Rightarrow> bool" where
  "selected_is sel userId = (case sel of None \<Rightarrow> False | Some u \<Rightarrow> id' u = userId)"

definition AllClients_toggleBlock_settle :: "toggle_closure \<Rightarrow> settled \<Rightarrow> clients \<Rightarrow> clients" where
  "AllClients_toggleBlock_settle c r s =
    (case r of
       Rejected response \<Rightarrow> notify ToastError s
     | Fulfilled data \<Rightarrow>
         (case member data ''message'' of
            Inl e \<Rightarrow> notify ToastError s
          | Inr message \<Rightarrow>
              (let s1 = notify ToastSuccess s;
                   newStatus = (if truthy (opt_member data ''isBlocked'')
                                then JStr ''Blocked'' else JStr ''Active'');
                   s2 = s1\<lparr> users := map (\<lambda>u. if id' u = c_userId c
                                                then u\<lparr> status := newStatus \<rparr> else u) (users s1) \<rparr>
               in if selected_is (c_selectedUser c) (c_userId c)
                  then s2\<lparr> selectedUser := Some (spread_status (selectedUser s2) newStatus) \<rparr>
                  else s2)))"

text \<open>
  The \<^verbatim>\<open>filtered\<close> memo. The text searched is the template literal of the four fields, each
  converted in turn; a conversion that throws ends the callback, and the callback that
  throws ends \<^verbatim>\<open>users.filter\<close>.
\<close>

definition search_text :: "platform \<Rightarrow> 'a account_scheme \<Rightarrow> js_error + string" where
  "search_text P u =
    and_then (ToString P (name u)) (\<lambda>n.
    and_then (ToString P (email u)) (\<lambda>e.
    and_then (ToString P (phone u)) (\<lambda>p.
    and_then (ToString P (role u)) (\<lambda>r.
      Inr (n @ '' '' @ e @ '' '' @ p @ '' '' @ r)))))"

fun filter_throw :: "('a \<Rightarrow> js_error + bool) \<Rightarrow> 'a list \<Rightarrow> js_error + 'a list" where
  "filter_throw f [] = Inr []"
| "filter_throw f (x # xs) =
     and_then (f x) (\<lambda>keep. and_then (filter_throw f xs) (\<lambda>ys. Inr (if keep then x # ys else ys)))"

definition filtered_keep :: "platform \<Rightarrow> string \<Rightarrow> string \<Rightarrow> user \<Rightarrow> js_error + bool" where
  "filtered_keep P search' statusFilter' u =
    (let q = toLowerCase P search' in
     and_then
       (if q \<noteq> []
        then and_then (search_text P u) (\<lambda>t. Inr (\<not> includes_str (toLowerCase P t) q))
        else Inr False)
       (\<lambda>no_match.
          if no_match then Inr False
          else if statusFilter' \<noteq> ''All'' \<and> status u \<noteq> JStr statusFilter' then Inr False
          else Inr True))"

definition filtered_useMemo :: "platform \<Rightarrow> clients \<Rightarrow> js_error + user list" where
  "filtered_useMemo P s = filter_throw (filtered_keep P (search s) (statusFilter s)) (users s)"

text \<open>A render: the memo is computed and kept for the handlers of that render.\<close>

definition AllClients_render :: "platform \<Rightarrow> clients \<Rightarrow> js_error + clients" where
  "AllClients_render P s = and_then (filtered_useMemo P s) (\<lambda>visible. Inr (s\<lparr> filtered := visible \<rparr>))"

definition openDrawer :: "user \<Rightarrow> clients \<Rightarrow> clients" where
  "openDrawer u s = s\<lparr> selectedUser := Some u, drawerOpen := True, activeTab := ''profile'' \<rparr>"














section \<open>BuilderVerification\<close>

record owners = "owner listing" +
  searchQuery :: string

definition fetchOwners_begin :: "owners \<Rightarrow> owners \<times> bool" where
  "fetchOwners_begin s =
    (if \<not> truthy_item (token s)
     then (notify ToastError (s\<lparr> loading := False \<rparr>), False)
     else (send \<lparr> http_method = ''GET'', url = ''/api/users/list?role=owner'',
                   authorization = bearer (token s) \<rparr> (s\<lparr> loading := True \<rparr>), True))"

definition fetchOwners_catch :: "http_response option \<Rightarrow> owners \<Rightarrow> owners" where
  "fetchOwners_catch response s =
    (let s1 = s\<lparr> loading := False \<rparr> in
     if status_401 response
     then removeItem ''adminToken'' (notify ToastError s1)
     else notify ToastError s1)"

definition fetchOwners_settle :: "(jsval \<Rightarrow> string option) \<Rightarrow> settled \<Rightarrow> owners \<Rightarrow> owners" where
  "fetchOwners_settle D r s =
    (case r of
       Fulfilled data \<Rightarrow>
         (case users_map (BuilderVerification_mapUser D) data of
            Inr us \<Rightarrow> notify ToastSuccess (s\<lparr> users := us, loading := False \<rparr>)
          | Inl e \<Rightarrow> fetchOwners_catch None s)
     | Rejected response \<Rightarrow> fetchOwners_catch response s)"

text \<open>\<^verbatim>\<open>toggleBlock\<close> of BuilderVerification: no check of the id, the flag as the service sent it.\<close>

definition BuilderVerification_toggleBlock_begin :: "jsval \<Rightarrow> owners \<Rightarrow> owners \<times> jsval option" where
  "BuilderVerification_toggleBlock_begin userId s =
    (if \<not> truthy_item (token s) then (notify ToastError s, None)
     else (send \<lparr> http_method = ''PUT'', url = ''/api/users/block/'' @ js_String userId,
                   authorization = bearer (token s) \<rparr> s,
           Some userId))"

definition BuilderVerification_toggleBlock_settle :: "jsval \<Rightarrow> settled \<Rightarrow> owners \<Rightarrow> owners" where
  "BuilderVerification_toggleBlock_settle userId r s =
    (case r of
       Rejected response \<Rightarrow> notify ToastError s
     | Fulfilled data \<Rightarrow>
         (case member data ''message'' of
            Inl e \<Rightarrow> notify ToastError s
          | Inr message \<Rightarrow>
              (let s1 = notify ToastSuccess s;
                   newIsBlocked = opt_member data ''isBlocked''
               in s1\<lparr> users := map (\<lambda>u. if id' u = userId
                                           then u\<lparr> isBlocked := newIsBlocked \<rparr> else u) (users s1) \<rparr>)))"



section \<open>AllProperty\<close>

text \<open>\<open>adminToken\<close> is what the last render read from storage.\<close>

record listings = page +
  properties :: "jsval list"
  adminToken :: "string option"

definition fetchProperties_begin :: "listings \<Rightarrow> listings" where
  "fetchProperties_begin s =
    send \<lparr> http_method = ''GET'', url = ''/api/properties/list'', authorization = None \<rparr>
      (s\<lparr> loading := True \<rparr>)"

text \<open>The elements of what \<^verbatim>\<open>extractList\<close> returned, which is always an array.\<close>

fun elements :: "jsval \<Rightarrow> jsval list" where
  "elements (JArr xs) = xs"
| "elements v = []"

definition fetchProperties_settle :: "settled \<Rightarrow> listings \<Rightarrow> listings" where
  "fetchProperties_settle r s =
    (case r of
       Fulfilled data \<Rightarrow>
         (case extractList data of
            Inr list \<Rightarrow> s\<lparr> properties := elements list \<rparr>
          | Inl e \<Rightarrow> notify ToastError s)
     | Rejected response \<Rightarrow> notify ToastError s)\<lparr> loading := False \<rparr>"

text \<open>
  \<^verbatim>\<open>handleDelete\<close>: the answer to \<^verbatim>\<open>window.confirm\<close> is an input. The header is built from
  \<open>adminToken\<close> whatever it is.
\<close>

definition handleDelete_begin :: "bool \<Rightarrow> jsval \<Rightarrow> listings \<Rightarrow> listings \<times> jsval option" where
  "handleDelete_begin confirmed pid s =
    (if \<not> confirmed then (s, None)
     else (send \<lparr> http_method = ''DELETE'', url = ''/api/properties/delete/'' @ js_String pid,
                   authorization = bearer (adminToken s) \<rparr> s,
           Some pid))"

definition handleDelete_settle :: "jsval \<Rightarrow> settled \<Rightarrow> listings \<Rightarrow> listings" where
  "handleDelete_settle pid r s =
    (case r of
       Fulfilled data \<Rightarrow>
         (notify ToastSuccess s)\<lparr> properties := filter (\<lambda>p. opt_member p ''_id'' \<noteq> pid) (properties s) \<rparr>
     | Rejected response \<Rightarrow> notify ToastError s)"

definition toggleStatus_begin :: "jsval \<Rightarrow> string \<Rightarrow> listings \<Rightarrow> listings" where
  "toggleStatus_begin pid status' s =
    send \<lparr> http_method = ''PUT'', url = ''/api/properties/'' @ status' @ ''/'' @ js_String pid,
           authorization = bearer (adminToken s) \<rparr> s"

definition toggleStatus_settle :: "settled \<Rightarrow> listings \<Rightarrow> listings" where
  "toggleStatus_settle r s =
    (case r of
       Fulfilled data \<Rightarrow> fetchProperties_begin (notify ToastSuccess s)
     | Rejected response \<Rightarrow> notify ToastError s)"

section \<open>Sample data\<close>

text \<open>Two accounts, an AllClients page holding them, and its BuilderVerification twin.\<close>

definition sample_user :: "string \<Rightarrow> string \<Rightarrow> string \<Rightarrow> user" where
  "sample_user i n st =
    \<lparr> id' = JStr i, name = JStr n, email = JStr (n @ ''@example.org''), phone = JUndefined,
      alternatePhone = JUndefined, address = JObj [(''city'', JStr ''Pune'')], role = JStr ''user'',
      joinedAt = JStr ''01/02/2024'', gender = JUndefined, dateOfBirth = JUndefined,
      bio = JUndefined, preferences = JUndefined, profileImage = JNull, status = JStr st \<rparr>"

definition alice :: user where
  "alice = sample_user ''u1'' ''Alice'' ''Active''"

definition bob :: user where
  "bob = sample_user ''u2'' ''Bob'' ''Blocked''"

definition sample_storage :: storage where
  "sample_storage = [''adminToken'' \<mapsto> ''t'', ''adminInfo'' \<mapsto> ''admin'']"

definition sample_clients :: clients where
  "sample_clients =
    \<lparr> localStorage = sample_storage, requests = [], toasts = [], downloads = [],
      href = ''/all-clients'', loading = False,
      users = [alice, bob], statusFilter = ''All'', token = Some ''t'',
      search = [], selectedUser = None, drawerOpen = False, activeTab = ''profile'',
      filtered = [alice, bob] \<rparr>"

definition sample_owner :: "string \<Rightarrow> string \<Rightarrow> bool \<Rightarrow> owner" where
  "sample_owner i n b =
    \<lparr> id' = JStr i, name = JStr n, email = JStr (n @ ''@example.org''), phone = JUndefined,
      alternatePhone = JUndefined, address = JUndefined, role = JStr ''owner'',
      joinedAt = JStr ''01/02/2024'', gender = JUndefined, dateOfBirth = JUndefined,
      bio = JUndefined, preferences = JUndefined, profileImage = JNull, isBlocked = JBool b \<rparr>"

definition sample_owners :: owners where
  "sample_owners =
    \<lparr> localStorage = sample_storage, requests = [], toasts = [], downloads = [],
      href = ''/all-owners'', loading = False,
      users = [sample_owner ''o1'' ''Carol'' False, sample_owner ''o2'' ''Dan'' True],
      statusFilter = ''all'', token = Some ''t'', searchQuery = [] \<rparr>"

text \<open>An AllProperty page rendered after the token has left the storage.\<close>

definition sample_listings :: listings where
  "sample_listings =
    \<lparr> localStorage = Map.empty, requests = [], toasts = [], downloads = [],
      href = ''/all-properties'', loading = False,
      properties = [JObj [(''_id'', JStr ''p1''), (''isApproved'', JBool False)]],
      adminToken = None \<rparr>"

text \<open>Settled responses of the service.\<close>

definition blocked_reply :: settled where
  "blocked_reply = Fulfilled (JObj [(''message'', JStr ''User blocked''), (''isBlocked'', JBool True)])"

definition expired_reply :: settled where
  "expired_reply =
    Rejected (Some \<lparr> response_status = 401, response_data = JObj [(''message'', JStr ''jwt expired'')] \<rparr>)"

definition failed_reply :: settled where
  "failed_reply = Rejected (Some \<lparr> response_status = 500, response_data = JNull \<rparr>)"

definition carol :: user where
  "carol = sample_user ''u3'' ''Carol'' ''Active''"

text \<open>
  Two runs of the AllClients page. In the first the operator clicks Block in the row of
  \<open>u1\<close> with the drawer closed, opens the drawer on \<open>u1\<close> before the service answers, and
  the answer arrives. In the second the drawer is open on \<open>u1\<close> when Block is clicked; the
  operator closes it and opens it on \<open>u3\<close>, and the answer for \<open>u1\<close> arrives.
\<close>

definition late_open_run :: clients where
  "late_open_run =
    (case AllClients_toggleBlock_begin (JStr ''u1'') sample_clients of
       (s1, Some c) \<Rightarrow> AllClients_toggleBlock_settle c blocked_reply (openDrawer alice s1)
     | (s1, None) \<Rightarrow> s1)"

definition switched_run :: clients where
  "switched_run =
    (case AllClients_toggleBlock_begin (JStr ''u1'')
            (openDrawer alice (sample_clients\<lparr> users := [alice, carol] \<rparr>)) of
       (s1, Some c) \<Rightarrow>
         AllClients_toggleBlock_settle c blocked_reply (openDrawer carol (s1\<lparr> drawerOpen := False \<rparr>))
     | (s1, None) \<Rightarrow> s1)"

section \<open>Vocabulary of the specification\<close>



definition converts :: "platform \<Rightarrow> (jsval \<Rightarrow> string) \<Rightarrow> 'a account_scheme \<Rightarrow> bool" where
  "converts P T u =
    (ToString P (name u) = Inr (T (name u)) \<and> ToString P (email u) = Inr (T (email u))
     \<and> ToString P (phone u) = Inr (T (phone u)) \<and> ToString P (role u) = Inr (T (role u)))"

text \<open>
  A platform for the examples: lowercasing of the letters A to Z and decimal digits for
  numbers. A record whose name cannot be converted.
\<close>

definition lower_char :: "char \<Rightarrow> char" where
  "lower_char c =
    (if 65 \<le> (of_char c :: nat) \<and> (of_char c :: nat) \<le> 90 then char_of ((of_char c :: nat) + 32) else c)"

definition ascii_platform :: platform where
  "ascii_platform =
    \<lparr> toLowerCase = map lower_char,
      Number_toString = (\<lambda>n. if n < 0 then ''-'' @ digits (nat (- n)) else digits (nat n)) \<rparr>"

definition mallory :: user where
  "mallory = (sample_user ''u9'' ''Mallory'' ''Active'')\<lparr> name := JObj [(''toString'', JNum 1)] \<rparr>"

text \<open>The status label the service's answer confirms.\<close>

definition confirmed_status :: "jsval \<Rightarrow> jsval" where
  "confirmed_status data =
    (if truthy (opt_member data ''isBlocked'') then JStr ''Blocked'' else JStr ''Active'')"

text \<open>The block request for an id under a token, and one line of the export.\<close>

definition block_request :: "jsval \<Rightarrow> string option \<Rightarrow> request" where
  "block_request userId tok =
    \<lparr> http_method = ''PUT'', url = ''/api/users/block/'' @ js_String userId, authorization = bearer tok \<rparr>"


text \<open>Sample persisted sessions: a restricted agent and a full administrator.\<close>

definition sample_parse :: "string \<Rightarrow> jsval option" where
  "sample_parse s =
    (if s = ''agent'' then Some (JObj [(''isEnvAgent'', JBool True)])
     else if s = ''admin'' then Some (JObj [(''name'', JStr ''A'')])
     else None)"

definition sample_agent :: storage where
  "sample_agent = [''adminToken'' \<mapsto> ''t'', ''adminInfo'' \<mapsto> ''agent'']"

definition sample_admin :: storage where
  "sample_admin = [''adminToken'' \<mapsto> ''t'', ''adminInfo'' \<mapsto> ''admin'']"

section \<open>Properties\<close>

lemma member_defined: "truthy v \<Longrightarrow> member v k = Inr (opt_member v k)"
  by (cases v) simp_all

lemma isArray_truthy: "isArray v \<Longrightarrow> truthy v"
  by (cases v) simp_all

lemma opt_member_not_obj: "\<not> truthy v \<Longrightarrow> opt_member v k = JUndefined"
  by (cases v) simp_all

lemma isArray_opt_member: "isArray (opt_member v k) \<Longrightarrow> truthy v"
  by (cases v) simp_all

lemma find_SomeD: "find P xs = Some x \<Longrightarrow> x \<in> set xs \<and> P x"
  by (induction xs) (auto split: if_splits)

lemma extractList_total: "extractList r = Inr (first_array (accepted_positions r))"
proof (cases "truthy r")
  case False
  then have "\<And>k. opt_member r k = JUndefined"
    by (simp add: opt_member_not_obj)
  moreover have "\<not> isArray r" using False isArray_truthy by blast
  ultimately show ?thesis using False
    by (simp add: extractList_def first_array_def accepted_positions_def)
next
  case True
  note t = member_defined [OF True]
  show ?thesis
  proof (cases "isArray r")
    case True
    then show ?thesis using \<open>truthy r\<close>
      by (simp add: extractList_def first_array_def accepted_positions_def)
  next
    case nr: False
    show ?thesis
    proof (cases "isArray (opt_member r ''data'')")
      case True
      then show ?thesis using \<open>truthy r\<close> nr
        by (simp add: extractList_def first_array_def accepted_positions_def t)
    next
      case nd: False
      show ?thesis
      proof (cases "isArray (opt_member r ''properties'')")
        case True
        then show ?thesis using \<open>truthy r\<close> nr nd
          by (simp add: extractList_def first_array_def accepted_positions_def t)
      next
        case np: False
        show ?thesis
        proof (cases "isArray (opt_member (opt_member r ''success'') ''data'')")
          case True
          then have "truthy (opt_member r ''success'')"
            by (rule isArray_opt_member)
          then show ?thesis using \<open>truthy r\<close> nr nd np True
            by (simp add: extractList_def first_array_def accepted_positions_def t member_defined)
        next
          case ns: False
          show ?thesis
          proof (cases "isArray (opt_member (opt_member r ''data'') ''data'')")
            case True
            then have "truthy (opt_member r ''data'')"
              by (rule isArray_opt_member)
            then show ?thesis using \<open>truthy r\<close> nr nd np ns True
              by (simp add: extractList_def first_array_def accepted_positions_def t member_defined)
          next
            case False
            then show ?thesis using \<open>truthy r\<close> nr nd np ns
              by (simp add: extractList_def first_array_def accepted_positions_def t)
          qed
        qed
      qed
    qed
  qed
qed


text \<open>
  Claim C9. The listing-payload unwrapper never fails. It returns the first array found
  among the payload itself and its positions \<^verbatim>\<open>.data\<close>, \<^verbatim>\<open>.properties\<close>,
  \<^verbatim>\<open>.success.data\<close>, \<^verbatim>\<open>.data.data\<close>, unchanged, and the empty list for every other
  input: \<^verbatim>\<open>null\<close>, \<^verbatim>\<open>undefined\<close>, and any shape with no array at those positions.
\<close>

theorem extractList_accepted_shapes:
  "extractList r = Inr (first_array (accepted_positions r))
   \<and> isArray (first_array (accepted_positions r))
   \<and> ((\<forall>a \<in> set (accepted_positions r). \<not> isArray a) \<longrightarrow> extractList r = Inr (JArr []))
   \<and> extractList JNull = Inr (JArr []) \<and> extractList JUndefined = Inr (JArr [])"
proof -
  let ?ps = "accepted_positions r"
  have total: "extractList r = Inr (first_array ?ps)"
    by (rule extractList_total)
  have arr: "isArray (first_array ?ps)"
    by (auto simp: first_array_def split: option.splits dest: find_SomeD)
  have none: "(\<forall>a \<in> set ?ps. \<not> isArray a) \<longrightarrow> first_array ?ps = JArr []"
    by (auto simp: first_array_def split: option.splits dest: find_SomeD)
  have nulls: "extractList JNull = Inr (JArr [])" "extractList JUndefined = Inr (JArr [])"
    by (simp_all add: extractList_def)
  from total arr none nulls show ?thesis by auto
qed

theorem extractList_accepted_shapes_witness:
  "list_all (\<lambda>a. \<not> isArray a) (accepted_positions (JObj [(''data'', JStr ''x'')]))
   \<and> extractList (JObj [(''data'', JStr ''x'')]) = Inr (JArr [])
   \<and> extractList (JObj [(''success'', JObj [(''data'', JArr [JNum 7])])]) = Inr (JArr [JNum 7])"
  using extractList_accepted_shapes [of "JObj [(''data'', JStr ''x'')]"]
        extractList_accepted_shapes [of "JObj [(''success'', JObj [(''data'', JArr [JNum 7])])]"]
  by (simp add: accepted_positions_def first_array_def)

text \<open>
  Claim C6. The guard's decision is a function of the persisted session and the route's
  \<^verbatim>\<open>allowEnvAgent\<close> alone. In all eight combinations of token present or not, restricted-agent
  profile or not, and \<^verbatim>\<open>allowEnvAgent\<close> true or false it is: no token, redirect to the login
  page; token and a restricted-agent profile on a route that does not allow it, redirect to
  the restricted home; render otherwise. This is the specification's table for a route that
  requires a session; the one route that requires none is rendered without the guard, as
  the table says.
\<close>

theorem ProtectedRoute_decision_table:
  "ProtectedRoute P ls (Some allow) =
     element_of (decide_spec \<lparr> requiresSession = True, allowRestrictedAgent = allow \<rparr>
                             (current_session P ls))
   \<and> route_element P ls Unguarded =
     element_of (decide_spec \<lparr> requiresSession = False, allowRestrictedAgent = allow \<rparr>
                             (current_session P ls))
   \<and> ProtectedRoute P ls None = ProtectedRoute P ls (Some True)
   \<and> (\<not> truthy_item (ls ''adminToken'') \<longrightarrow>
        ProtectedRoute P ls (Some allow) = Navigate ''/admin/login'')
   \<and> (truthy_item (ls ''adminToken'') \<and> restricted (current_session P ls) \<and> \<not> allow \<longrightarrow>
        ProtectedRoute P ls (Some allow) = Navigate ''/add-property'')
   \<and> (truthy_item (ls ''adminToken'') \<and> \<not> (restricted (current_session P ls) \<and> \<not> allow) \<longrightarrow>
        ProtectedRoute P ls (Some allow) = Children)"
proof -
  have r: "restricted (current_session P ls)
           = truthy (opt_member (getStoredAdminInfo P ls) ''isEnvAgent'')"
    by (cases "getStoredAdminInfo P ls") (simp_all add: restricted_def current_session_def)
  have t: "(session_token (current_session P ls) = None) = (\<not> truthy_item (ls ''adminToken''))"
    by (cases "ls ''adminToken''") (simp_all add: current_session_def)
  have guarded: "ProtectedRoute P ls (Some a) =
      element_of (decide_spec \<lparr> requiresSession = True, allowRestrictedAgent = a \<rparr>
                              (current_session P ls))" for a
    unfolding ProtectedRoute_def decide_spec_def
    by (simp add: r t Let_def)
  have open_route: "route_element P ls Unguarded =
      element_of (decide_spec \<lparr> requiresSession = False, allowRestrictedAgent = allow \<rparr>
                              (current_session P ls))"
    by (simp add: decide_spec_def)
  have dflt: "ProtectedRoute P ls None = ProtectedRoute P ls (Some True)"
    by (simp add: ProtectedRoute_def)
  show ?thesis
    using guarded [of allow] open_route dflt
    unfolding ProtectedRoute_def decide_spec_def
    by (simp add: r t Let_def)
qed

theorem ProtectedRoute_decision_table_witness:
  "\<not> truthy_item (Map.empty ''adminToken'')
   \<and> ProtectedRoute sample_parse Map.empty (Some False) = Navigate ''/admin/login''
   \<and> truthy_item (sample_agent ''adminToken'') \<and> restricted (current_session sample_parse sample_agent)
   \<and> ProtectedRoute sample_parse sample_agent (Some False) = Navigate ''/add-property''
   \<and> ProtectedRoute sample_parse sample_agent (Some True) = Children
   \<and> \<not> restricted (current_session sample_parse sample_admin)
   \<and> ProtectedRoute sample_parse sample_admin (Some False) = Children"
  using ProtectedRoute_decision_table [where ls = Map.empty and allow = False and P = sample_parse]
        ProtectedRoute_decision_table [where ls = sample_agent and allow = False and P = sample_parse]
        ProtectedRoute_decision_table [where ls = sample_agent and allow = True and P = sample_parse]
        ProtectedRoute_decision_table [where ls = sample_admin and allow = False and P = sample_parse]
  by (simp add: restricted_def current_session_def getStoredAdminInfo_def decide_spec_def
        sample_parse_def sample_agent_def sample_admin_def)


subsection \<open>The filter\<close>


lemma and_then_Inr_iff: "(and_then r f = Inr y) = (\<exists>x. r = Inr x \<and> f x = Inr y)"
  by (cases r) simp_all

lemma js_error_only: "(e :: js_error) = TypeError"
  by (cases e) simp




lemma filter_throw_throws:
  "list_ex (\<lambda>x. f x = Inl TypeError) xs \<Longrightarrow> filter_throw f xs = Inl TypeError"
proof (induction xs)
  case Nil
  then show ?case by simp
next
  case (Cons x xs)
  show ?case
  proof (cases "f x")
    case (Inl e)
    then show ?thesis by (simp add: js_error_only [of e])
  next
    case (Inr keep)
    with Cons show ?thesis by simp
  qed
qed


lemma search_text_throws:
  "list_ex (\<lambda>v. ToString P v = Inl TypeError) [name u, email u, phone u, role u] \<Longrightarrow>
   search_text P u = Inl TypeError"
  by (cases "ToString P (name u)"; cases "ToString P (email u)"; cases "ToString P (phone u)";
      cases "ToString P (role u)")
     (simp_all add: search_text_def js_error_only)

text \<open>The records that convert are those on which no conversion throws.\<close>

lemma converts_iff_no_throw:
  "converts P (\<lambda>v. case ToString P v of Inr t \<Rightarrow> t | Inl e \<Rightarrow> []) u
     = (\<not> list_ex (\<lambda>v. ToString P v = Inl TypeError) [name u, email u, phone u, role u])"
  by (cases "ToString P (name u)"; cases "ToString P (email u)"; cases "ToString P (phone u)";
      cases "ToString P (role u)")
     (simp_all add: converts_def js_error_only)





text \<open>
  Where a searched field cannot be converted, the callback throws, and with it the filter.
  A render keeps what the filter returned.
\<close>

lemma filtered_throws:
  assumes "toLowerCase P (search a) \<noteq> []"
    and "list_ex (\<lambda>u. list_ex (\<lambda>v. ToString P v = Inl TypeError) [name u, email u, phone u, role u])
           (users a)"
  shows "filtered_useMemo P a = Inl TypeError"
proof -
  from assms(2) obtain u where u: "u \<in> set (users a)"
    and bad: "list_ex (\<lambda>v. ToString P v = Inl TypeError) [name u, email u, phone u, role u]"
    by (auto simp: list_ex_iff)
  have "filtered_keep P (search a) (statusFilter a) u = Inl TypeError"
    using assms(1) search_text_throws [OF bad] by (simp add: filtered_keep_def Let_def)
  with u have "list_ex (\<lambda>u. filtered_keep P (search a) (statusFilter a) u = Inl TypeError) (users a)"
    by (auto simp: list_ex_iff)
  then show ?thesis
    unfolding filtered_useMemo_def by (rule filter_throw_throws)
qed

lemma filtered_throws_example:
  "filtered_useMemo ascii_platform (sample_clients\<lparr> search := ''a'', users := [alice, mallory] \<rparr>)
     = Inl TypeError"
  by code_simp

lemma render_keeps_memo:
  "AllClients_render P s = Inr s' \<Longrightarrow> filtered_useMemo P s = Inr (filtered s')"
  by (auto simp: AllClients_render_def and_then_Inr_iff)


subsection \<open>Block and unblock\<close>

lemma AllClients_settle_users:
  "member data ''message'' = Inr m \<Longrightarrow>
   users (AllClients_toggleBlock_settle c (Fulfilled data) s)
     = map (\<lambda>u. if id' u = c_userId c then u\<lparr> status := confirmed_status data \<rparr> else u) (users s)"
  by (simp add: AllClients_toggleBlock_settle_def Let_def notify_def confirmed_status_def)

lemma BuilderVerification_settle_users:
  "member data ''message'' = Inr m \<Longrightarrow>
   users (BuilderVerification_toggleBlock_settle i (Fulfilled data) t)
     = map (\<lambda>u. if id' u = i then u\<lparr> isBlocked := opt_member data ''isBlocked'' \<rparr> else u) (users t)"
  by (simp add: BuilderVerification_toggleBlock_settle_def Let_def notify_def)

text \<open>
  Claim C5. When the block request is fulfilled with a body (the read of its message does
  not throw), the list keeps its length and order, every record keeps all fields of its
  account part, and the moderation field is the one the answer confirms on the records with
  the targeted id and the old one on every other record. On AllClients the field is the
  status label, on BuilderVerification the flag.
\<close>

theorem toggleBlock_frame:
  assumes ok: "member data ''message'' = Inr m"
  shows "map account.truncate (users (AllClients_toggleBlock_settle c (Fulfilled data) s))
           = map account.truncate (users s)
       \<and> map status (users (AllClients_toggleBlock_settle c (Fulfilled data) s))
           = map (\<lambda>u. if id' u = c_userId c then confirmed_status data else status u) (users s)
       \<and> map account.truncate (users (BuilderVerification_toggleBlock_settle i (Fulfilled data) t))
           = map account.truncate (users t)
       \<and> map isBlocked (users (BuilderVerification_toggleBlock_settle i (Fulfilled data) t))
           = map (\<lambda>u. if id' u = i then opt_member data ''isBlocked'' else isBlocked u) (users t)"
  by (simp add: AllClients_settle_users [OF ok] BuilderVerification_settle_users [OF ok]
        account.truncate_def o_def cong: if_cong)

theorem toggleBlock_frame_witness:
  "member (JObj [(''message'', JStr ''User blocked''), (''isBlocked'', JBool True)]) ''message''
     = Inr (JStr ''User blocked'')
   \<and> map status (users (AllClients_toggleBlock_settle
         \<lparr> c_userId = JStr ''u1'', c_selectedUser = None \<rparr> blocked_reply sample_clients))
       = [JStr ''Blocked'', JStr ''Blocked'']
   \<and> map account.truncate (users (AllClients_toggleBlock_settle
         \<lparr> c_userId = JStr ''u1'', c_selectedUser = None \<rparr> blocked_reply sample_clients))
       = map account.truncate [alice, bob]"
proof -
  have m: "member (JObj [(''message'', JStr ''User blocked''), (''isBlocked'', JBool True)]) ''message''
     = Inr (JStr ''User blocked'')" by simp
  have u: "users sample_clients = [alice, bob]" by (simp add: sample_clients_def)
  have i: "id' alice = JStr ''u1''" "id' bob = JStr ''u2''" "status bob = JStr ''Blocked''"
    by (simp_all add: alice_def bob_def sample_user_def)
  show ?thesis
    using toggleBlock_frame [OF m, of "\<lparr> c_userId = JStr ''u1'', c_selectedUser = None \<rparr>" sample_clients]
    by (simp add: m u i blocked_reply_def confirmed_status_def)
qed

subsection \<open>Refresh\<close>

lemma fetchUsers_catch_frame:
  "users (fetchUsers_catch resp s) = users s
   \<and> localStorage (fetchUsers_catch resp s)
       = (if status_401 resp then (localStorage s)(''adminToken'' := None) else localStorage s)"
  by (simp add: fetchUsers_catch_def Let_def notify_def removeItem_def)

lemma fetchOwners_catch_frame:
  "users (fetchOwners_catch resp s) = users s
   \<and> localStorage (fetchOwners_catch resp s)
       = (if status_401 resp then (localStorage s)(''adminToken'' := None) else localStorage s)"
  by (simp add: fetchOwners_catch_def Let_def notify_def removeItem_def)

text \<open>
  Claim C4. When the list request of either account page is rejected, the cached list is
  what it was. If the rejection carries status 401 the storage has no token afterwards;
  otherwise the storage is what it was. A fulfilled request whose body cannot be mapped
  (a throw inside the \<^verbatim>\<open>try\<close>) is such another failure: list and storage are what they were.
\<close>

theorem refresh_failure:
  "users (fetchUsers_settle D (Rejected resp) s) = users s
   \<and> users (fetchOwners_settle D (Rejected resp) t) = users t
   \<and> (status_401 resp \<longrightarrow>
        localStorage (fetchUsers_settle D (Rejected resp) s) ''adminToken'' = None
        \<and> localStorage (fetchOwners_settle D (Rejected resp) t) ''adminToken'' = None)
   \<and> (\<not> status_401 resp \<longrightarrow>
        localStorage (fetchUsers_settle D (Rejected resp) s) = localStorage s
        \<and> localStorage (fetchOwners_settle D (Rejected resp) t) = localStorage t)
   \<and> (users_map (AllClients_mapUser D) data = Inl e \<longrightarrow>
        users (fetchUsers_settle D (Fulfilled data) s) = users s
        \<and> localStorage (fetchUsers_settle D (Fulfilled data) s) = localStorage s)
   \<and> (users_map (BuilderVerification_mapUser D) data = Inl e' \<longrightarrow>
        users (fetchOwners_settle D (Fulfilled data) t) = users t
        \<and> localStorage (fetchOwners_settle D (Fulfilled data) t) = localStorage t)"
  by (simp add: fetchUsers_settle_def fetchOwners_settle_def fetchUsers_catch_frame
        fetchOwners_catch_frame)

theorem refresh_failure_witness:
  "status_401 (Some \<lparr> response_status = 401, response_data = JObj [(''message'', JStr ''jwt expired'')] \<rparr>)
   \<and> users (fetchUsers_settle (\<lambda>d. None) expired_reply sample_clients) = [alice, bob]
   \<and> localStorage (fetchUsers_settle (\<lambda>d. None) expired_reply sample_clients) ''adminToken'' = None
   \<and> \<not> status_401 (Some \<lparr> response_status = 500, response_data = JNull \<rparr>)
   \<and> users (fetchUsers_settle (\<lambda>d. None) failed_reply sample_clients) = [alice, bob]
   \<and> localStorage (fetchUsers_settle (\<lambda>d. None) failed_reply sample_clients) = sample_storage
   \<and> users_map (AllClients_mapUser (\<lambda>d. None)) (JObj [(''users'', JArr [JNull])]) = Inl TypeError
   \<and> users_map (BuilderVerification_mapUser (\<lambda>d. None)) (JObj [(''users'', JStr ''x'')]) = Inl TypeError
   \<and> users (fetchUsers_settle (\<lambda>d. None) (Fulfilled (JObj [(''users'', JArr [JNull])])) sample_clients)
       = [alice, bob]"
proof -
  have bad: "users_map (AllClients_mapUser (\<lambda>d. None)) (JObj [(''users'', JArr [JNull])]) = Inl TypeError"
    "users_map (BuilderVerification_mapUser (\<lambda>d. None)) (JObj [(''users'', JStr ''x'')]) = Inl TypeError"
    by (simp_all add: users_map_def AllClients_mapUser_def BuilderVerification_mapUser_def)
  have st: "users sample_clients = [alice, bob]" "localStorage sample_clients = sample_storage"
    by (simp_all add: sample_clients_def)
  show ?thesis
    using refresh_failure [where D = "\<lambda>d. None" and s = sample_clients and t = sample_owners
            and resp = "Some \<lparr> response_status = 401, response_data = JObj [(''message'', JStr ''jwt expired'')] \<rparr>"
            and data = "JObj [(''users'', JArr [JNull])]" and e = TypeError and e' = TypeError]
          refresh_failure [where D = "\<lambda>d. None" and s = sample_clients and t = sample_owners
            and resp = "Some \<lparr> response_status = 500, response_data = JNull \<rparr>"
            and data = "JObj [(''users'', JStr ''x'')]" and e = TypeError and e' = TypeError]
    by (simp add: bad st expired_reply_def failed_reply_def)
qed


subsection \<open>Requests in flight\<close>

lemma AllClients_begin_sends:
  "truthy userId \<Longrightarrow> truthy_item (token s) \<Longrightarrow>
   AllClients_toggleBlock_begin userId s
     = (s\<lparr> requests := requests s @ [block_request userId (token s)] \<rparr>,
        Some \<lparr> c_userId = userId, c_selectedUser = selectedUser s \<rparr>)"
  by (simp add: AllClients_toggleBlock_begin_def send_def block_request_def)

lemma BuilderVerification_begin_sends:
  "truthy_item (token t) \<Longrightarrow>
   BuilderVerification_toggleBlock_begin userId t
     = (t\<lparr> requests := requests t @ [block_request userId (token t)] \<rparr>, Some userId)"
  by (simp add: BuilderVerification_toggleBlock_begin_def send_def block_request_def)

text \<open>
  Claim C1, as amended. The pages keep no record of requests in flight. Every call of
  \<^verbatim>\<open>toggleBlock\<close> with a token (and, on AllClients, a truthy id) issues its own request,
  so a second call for the same id before the first has settled issues a second, identical
  request, and neither call is turned away.
\<close>

theorem double_trigger_sends_twice:
  assumes "truthy userId" and "truthy_item (token s)" and "truthy_item (token t)"
  shows "snd (AllClients_toggleBlock_begin userId (fst (AllClients_toggleBlock_begin userId s))) \<noteq> None
       \<and> requests (fst (AllClients_toggleBlock_begin userId (fst (AllClients_toggleBlock_begin userId s))))
           = requests s @ [block_request userId (token s), block_request userId (token s)]
       \<and> snd (BuilderVerification_toggleBlock_begin userId
                (fst (BuilderVerification_toggleBlock_begin userId t))) \<noteq> None
       \<and> requests (fst (BuilderVerification_toggleBlock_begin userId
                (fst (BuilderVerification_toggleBlock_begin userId t))))
           = requests t @ [block_request userId (token t), block_request userId (token t)]"
  using assms
  by (simp add: AllClients_begin_sends BuilderVerification_begin_sends)

theorem double_trigger_sends_twice_witness:
  "truthy (JStr ''u1'') \<and> truthy_item (token sample_clients) \<and> truthy_item (token sample_owners)
   \<and> requests (fst (AllClients_toggleBlock_begin (JStr ''u1'')
                  (fst (AllClients_toggleBlock_begin (JStr ''u1'') sample_clients))))
       = [block_request (JStr ''u1'') (Some ''t''), block_request (JStr ''u1'') (Some ''t'')]"
proof -
  have h: "truthy (JStr ''u1'')" "truthy_item (token sample_clients)" "truthy_item (token sample_owners)"
    by (simp_all add: sample_clients_def sample_owners_def)
  have r: "requests sample_clients = []" "token sample_clients = Some ''t''"
    by (simp_all add: sample_clients_def)
  show ?thesis
    using double_trigger_sends_twice [OF h] h by (simp add: r)
qed

text \<open>
  The claim as stated fails: with the first call for \<open>u1\<close> still in flight, the second call
  is not turned away, and two requests have been issued.
\<close>

theorem double_trigger_not_busy:
  "snd (AllClients_toggleBlock_begin (JStr ''u1'') sample_clients) \<noteq> None
   \<and> snd (AllClients_toggleBlock_begin (JStr ''u1'')
           (fst (AllClients_toggleBlock_begin (JStr ''u1'') sample_clients))) \<noteq> None
   \<and> length (requests (fst (AllClients_toggleBlock_begin (JStr ''u1'')
           (fst (AllClients_toggleBlock_begin (JStr ''u1'') sample_clients))))) = 2"
  by (simp add: AllClients_toggleBlock_begin_def send_def sample_clients_def)

subsection \<open>Operations without a token\<close>

text \<open>
  On the account pages the four authorized operations stop before any request when the
  component holds no token, and leave list and storage as they were.
\<close>

lemma account_pages_guard:
  "\<not> truthy_item (token s) \<Longrightarrow> \<not> truthy_item (token t) \<Longrightarrow>
     requests (fst (fetchUsers_begin s)) = requests s \<and> \<not> snd (fetchUsers_begin s)
     \<and> users (fst (fetchUsers_begin s)) = users s
     \<and> localStorage (fst (fetchUsers_begin s)) = localStorage s
     \<and> requests (fst (AllClients_toggleBlock_begin i s)) = requests s
     \<and> snd (AllClients_toggleBlock_begin i s) = None
     \<and> users (fst (AllClients_toggleBlock_begin i s)) = users s
     \<and> requests (fst (fetchOwners_begin t)) = requests t \<and> \<not> snd (fetchOwners_begin t)
     \<and> users (fst (fetchOwners_begin t)) = users t
     \<and> requests (fst (BuilderVerification_toggleBlock_begin i t)) = requests t
     \<and> snd (BuilderVerification_toggleBlock_begin i t) = None
     \<and> users (fst (BuilderVerification_toggleBlock_begin i t)) = users t"
  by (simp add: fetchUsers_begin_def fetchOwners_begin_def AllClients_toggleBlock_begin_def
        BuilderVerification_toggleBlock_begin_def notify_def)

text \<open>
  Claim C2. The listing page has no such check. With no token in the storage and none in
  the component, a confirmed delete and an approve each issue their request, carrying the
  header \<^verbatim>\<open>Bearer null\<close>.
\<close>

theorem moderation_without_token:
  "adminToken sample_listings = None
   \<and> localStorage sample_listings ''adminToken'' = None
   \<and> requests sample_listings = []
   \<and> requests (fst (handleDelete_begin True (JStr ''p1'') sample_listings))
       = [\<lparr> http_method = ''DELETE'', url = ''/api/properties/delete/p1'',
            authorization = Some ''Bearer null'' \<rparr>]
   \<and> requests (toggleStatus_begin (JStr ''p1'') ''approve'' sample_listings)
       = [\<lparr> http_method = ''PUT'', url = ''/api/properties/approve/p1'',
            authorization = Some ''Bearer null'' \<rparr>]"
  by (simp add: handleDelete_begin_def toggleStatus_begin_def send_def bearer_def sample_listings_def)

subsection \<open>Clearing the session\<close>

lemma handleLogout_clears:
  "localStorage (handleLogout s) ''adminToken'' = None
   \<and> localStorage (handleLogout s) ''adminInfo'' = None"
  by (simp add: handleLogout_def removeItem_def)

lemma expiry_removes_token_only:
  "status_401 resp \<Longrightarrow>
   localStorage (fetchUsers_settle D (Rejected resp) s) = (localStorage s)(''adminToken'' := None)
   \<and> localStorage (fetchOwners_settle D (Rejected resp) t) = (localStorage t)(''adminToken'' := None)"
  by (simp add: fetchUsers_settle_def fetchOwners_settle_def fetchUsers_catch_frame
        fetchOwners_catch_frame)

text \<open>
  Claim C3. Logout removes token and profile together (\<open>handleLogout_clears\<close>). The clear
  on a 401 answer does not: from a storage holding both, the refresh of either account page
  that is answered with 401 leaves the profile in the storage and no token.
\<close>

theorem expiry_keeps_profile:
  "localStorage sample_clients ''adminToken'' = Some ''t''
   \<and> localStorage sample_clients ''adminInfo'' = Some ''admin''
   \<and> localStorage (fetchUsers_settle (\<lambda>d. None) expired_reply sample_clients) ''adminToken'' = None
   \<and> localStorage (fetchUsers_settle (\<lambda>d. None) expired_reply sample_clients) ''adminInfo''
       = Some ''admin''
   \<and> localStorage (fetchOwners_settle (\<lambda>d. None) expired_reply sample_owners) ''adminToken'' = None
   \<and> localStorage (fetchOwners_settle (\<lambda>d. None) expired_reply sample_owners) ''adminInfo''
       = Some ''admin''"
  by (simp add: fetchUsers_settle_def fetchUsers_catch_def fetchOwners_settle_def
        fetchOwners_catch_def expired_reply_def removeItem_def notify_def Let_def
        sample_clients_def sample_owners_def sample_storage_def)

subsection \<open>The drawer\<close>

text \<open>
  When nothing has touched the drawer between the click and the answer, the drawer's
  record follows the list: it takes the confirmed status when it shows the targeted id and
  is left alone otherwise.
\<close>

lemma drawer_follows_when_undisturbed:
  assumes "member data ''message'' = Inr m" and "c_selectedUser c = selectedUser s"
  shows "selectedUser (AllClients_toggleBlock_settle c (Fulfilled data) s)
           = (case selectedUser s of
                None \<Rightarrow> None
              | Some u \<Rightarrow> if id' u = c_userId c then Some (u\<lparr> status := confirmed_status data \<rparr>)
                          else Some u)"
  using assms
  by (cases "selectedUser s")
     (simp_all add: AllClients_toggleBlock_settle_def Let_def notify_def confirmed_status_def
        selected_is_def spread_status_def)

text \<open>
  Claim C10. The continuation tests the \<^verbatim>\<open>selectedUser\<close> it captured at the click, not the
  one on display when the answer arrives. In the first run the drawer is open on \<open>u1\<close>, the
  list says Blocked and the drawer still says Active. In the second run the answer for \<open>u1\<close>
  rewrites the status in the drawer that shows \<open>u3\<close>, whose list record is untouched.
\<close>

theorem drawer_disagrees:
  "drawerOpen late_open_run
   \<and> map (\<lambda>u. (id' u, status u)) (users late_open_run)
       = [(JStr ''u1'', JStr ''Blocked''), (JStr ''u2'', JStr ''Blocked'')]
   \<and> map_option (\<lambda>u. (id' u, status u)) (selectedUser late_open_run)
       = Some (JStr ''u1'', JStr ''Active'')
   \<and> drawerOpen switched_run
   \<and> map (\<lambda>u. (id' u, status u)) (users switched_run)
       = [(JStr ''u1'', JStr ''Blocked''), (JStr ''u3'', JStr ''Active'')]
   \<and> map_option (\<lambda>u. (id' u, status u)) (selectedUser switched_run)
       = Some (JStr ''u3'', JStr ''Blocked'')"
  by (simp add: late_open_run_def switched_run_def AllClients_toggleBlock_begin_def
      AllClients_toggleBlock_settle_def openDrawer_def send_def notify_def blocked_reply_def
      sample_clients_def alice_def bob_def carol_def sample_user_def selected_is_def
      spread_status_def Let_def)


subsection \<open>The export\<close>










end
